theory Spec2Isabelle
  imports Main
begin

section \<open>Python values and library functions used by skin_editor.py\<close>

text \<open>
  A Python \<open>str\<close> is modelled as a \<open>string\<close> whose characters stand for the code
  points U+0000 to U+00FF. The only Python values whose dynamic type matters in the
  program are the sizes compared with \<open>valid_sizes\<close>: integers, tuples and lists, kept
  apart by constructor, so that HOL equality on \<open>pyval\<close> is Python's \<open>==\<close> (a list is
  never equal to a tuple).
\<close>

datatype pyval = PInt int | PTuple "pyval list" | PList "pyval list"

text \<open>\<open>x in xs\<close> for a Python list \<open>xs\<close>: some element is equal to \<open>x\<close>.\<close>

definition py_in :: "pyval \<Rightarrow> pyval list \<Rightarrow> bool" where
  "py_in x xs = (x \<in> set xs)"

text \<open>\<open>valid_sizes = [(64, 32), (64, 64), (128, 128)]\<close>, a list of tuples (line 7).\<close>

definition valid_sizes :: "pyval list" where
  "valid_sizes =
     [PTuple [PInt 64, PInt 32], PTuple [PInt 64, PInt 64], PTuple [PInt 128, PInt 128]]"

text \<open>
  \<open>str.isspace\<close> on code points below 256, which \<open>str.strip()\<close> and \<open>str.split()\<close>
  use: TAB, LF, VT, FF, CR, the separators U+001C to U+001F, SPACE, NEL and NBSP.
\<close>

definition py_isspace :: "char \<Rightarrow> bool" where
  "py_isspace c =
     (let n = (of_char c :: nat)
      in (9 \<le> n \<and> n \<le> 13) \<or> (28 \<le> n \<and> n \<le> 32) \<or> n = 133 \<or> n = 160)"

text \<open>
  The whitespace \<open>int(s, 16)\<close> skips at both ends: the ASCII set of the C locale
  (TAB, LF, VT, FF, CR, SPACE) and, in a non-ASCII string, NEL and NBSP, which CPython
  rewrites to a space first. U+001C to U+001F do not belong to it.
\<close>

definition int_isspace :: "char \<Rightarrow> bool" where
  "int_isspace c =
     (let n = (of_char c :: nat)
      in (9 \<le> n \<and> n \<le> 13) \<or> n = 32 \<or> n = 133 \<or> n = 160)"

text \<open>The value of a digit in base 16, both letter cases (CPython's digit table).\<close>

definition hex_value :: "char \<Rightarrow> nat option" where
  "hex_value c =
     (let n = (of_char c :: nat)
      in if 48 \<le> n \<and> n \<le> 57 then Some (n - 48)
         else if 65 \<le> n \<and> n \<le> 70 then Some (n - 55)
         else if 97 \<le> n \<and> n \<le> 102 then Some (n - 87)
         else None)"

text \<open>
  The digit scan of \<open>int(s, 16)\<close>: hexadecimal digits with single underscores between
  them. \<open>prev\<close> is the character read last, \<open>acc\<close> the value so far. The scan stops at
  the first character that is neither; two underscores in a row or a trailing underscore
  are an error.
\<close>

fun scan_digits :: "char \<Rightarrow> nat \<Rightarrow> string \<Rightarrow> (nat \<times> string) option" where
  "scan_digits prev acc [] = (if prev = CHR ''_'' then None else Some (acc, []))"
| "scan_digits prev acc (c # cs) =
     (if c = CHR ''_'' then (if prev = CHR ''_'' then None else scan_digits c acc cs)
      else (case hex_value c of
              Some d \<Rightarrow> scan_digits c (16 * acc + d) cs
            | None \<Rightarrow> (if prev = CHR ''_'' then None else Some (acc, c # cs))))"

text \<open>
  \<open>int(s, 16)\<close>, \<open>None\<close> where Python raises ValueError: leading whitespace, an optional
  sign, an optional \<open>0x\<close> or \<open>0X\<close> prefix (with one underscore allowed after it), at
  least one digit, trailing whitespace, and nothing else.
\<close>

definition py_int16 :: "string \<Rightarrow> int option" where
  "py_int16 s =
     (let s1 = dropWhile int_isspace s;
          sign = (case s1 of c # _ \<Rightarrow> (if c = CHR ''-'' then (-1::int) else 1) | [] \<Rightarrow> 1);
          s2 = (case s1 of
                  c # r \<Rightarrow> (if c = CHR ''+'' \<or> c = CHR ''-'' then r else s1)
                | [] \<Rightarrow> s1);
          s3 = (case s2 of
                  c # x # r \<Rightarrow>
                    (if c = CHR ''0'' \<and> (x = CHR ''x'' \<or> x = CHR ''X'')
                     then (case r of u # r' \<Rightarrow> (if u = CHR ''_'' then r' else r) | [] \<Rightarrow> r)
                     else s2)
                | _ \<Rightarrow> s2)
      in case s3 of
           [] \<Rightarrow> None
         | c # _ \<Rightarrow>
             (if hex_value c = None then None
              else (case scan_digits (CHR 0x00) 0 s3 of
                      None \<Rightarrow> None
                    | Some (v, rest) \<Rightarrow>
                        (if dropWhile int_isspace rest = [] then Some (sign * int v)
                         else None))))"

text \<open>\<open>s[i:j]\<close> for \<open>0 \<le> i \<le> j\<close>: Python clips the slice to the string.\<close>

definition py_slice :: "string \<Rightarrow> nat \<Rightarrow> nat \<Rightarrow> string" where
  "py_slice s i j = take (j - i) (drop i s)"

text \<open>The digits of a natural number in base 16, upper case, most significant first.\<close>

definition hex_digit :: "nat \<Rightarrow> char" where
  "hex_digit d = ''0123456789ABCDEF'' ! d"

fun upper_hex :: "nat \<Rightarrow> string" where
  "upper_hex n = (if n < 16 then [hex_digit n] else upper_hex (n div 16) @ [hex_digit (n mod 16)])"

text \<open>
  The format specification \<open>02X\<close>: upper-case hexadecimal, zero-padded to a total width
  of two, the sign counting towards the width.
\<close>

definition format_02X :: "int \<Rightarrow> string" where
  "format_02X n =
     (if n < 0 then CHR ''-'' # upper_hex (nat (- n))
      else replicate (2 - length (upper_hex (nat n))) (CHR ''0'') @ upper_hex (nat n))"

section \<open>The colour codec\<close>

type_synonym rgba = "int \<times> int \<times> int \<times> int"

text \<open>
  The ValueErrors of the program and its other reported failures, each with the values
  its message interpolates.
\<close>

datatype error =
    NotFound string
  | EmptyInput
  | InconsistentRow nat int nat
  | WrongDimension int int
  | InvalidFormat string
  | InvalidChars string
  | UnexpectedError

text \<open>\<open>rgba_to_hex\<close> (lines 10 to 13).\<close>

fun rgba_to_hex :: "rgba \<Rightarrow> string" where
  "rgba_to_hex (r, g, b, a) =
     CHR ''#'' # format_02X r @ format_02X g @ format_02X b @ format_02X a"

text \<open>
  \<open>hex_to_rgba\<close> (lines 16 to 27). A ValueError of any of the four \<open>int\<close> calls is
  caught and raised again with the second message.
\<close>

definition startswith_hash :: "string \<Rightarrow> bool" where
  "startswith_hash s = (case s of [] \<Rightarrow> False | c # _ \<Rightarrow> c = CHR ''#'')"

definition hex_to_rgba :: "string \<Rightarrow> error + rgba" where
  "hex_to_rgba hex_code =
     (if \<not> startswith_hash hex_code \<or> length hex_code \<noteq> 9
      then Inl (InvalidFormat hex_code)
      else (case py_int16 (py_slice hex_code 1 3) of
              None \<Rightarrow> Inl (InvalidChars hex_code)
            | Some r \<Rightarrow>
          (case py_int16 (py_slice hex_code 3 5) of
              None \<Rightarrow> Inl (InvalidChars hex_code)
            | Some g \<Rightarrow>
          (case py_int16 (py_slice hex_code 5 7) of
              None \<Rightarrow> Inl (InvalidChars hex_code)
            | Some b \<Rightarrow>
          (case py_int16 (py_slice hex_code 7 9) of
              None \<Rightarrow> Inl (InvalidChars hex_code)
            | Some a \<Rightarrow> Inr (r, g, b, a))))))"

section \<open>Text files\<close>

text \<open>
  A file opened in text mode with the default \<open>newline=None\<close>: on reading, \<open>\r\n\<close> and
  a lone \<open>\r\<close> become \<open>\n\<close>.
\<close>

fun universal_newlines :: "string \<Rightarrow> string" where
  "universal_newlines [] = []"
| "universal_newlines (c # cs) =
     (if c = CHR 0x0D
      then (case cs of
              [] \<Rightarrow> [CHR 0x0A]
            | d # ds \<Rightarrow>
                (if d = CHR 0x0A then CHR 0x0A # universal_newlines ds
                 else CHR 0x0A # universal_newlines cs))
      else c # universal_newlines cs)"

text \<open>\<open>f.readlines()\<close>: the lines of the text, each with its newline, the last maybe without.\<close>

fun readlines :: "string \<Rightarrow> string list" where
  "readlines [] = []"
| "readlines (c # cs) =
     (if c = CHR 0x0A then [c] # readlines cs
      else (case readlines cs of [] \<Rightarrow> [[c]] | l # ls \<Rightarrow> (c # l) # ls))"

text \<open>\<open>line.strip()\<close> and \<open>line.split()\<close>, both on Python's whitespace.\<close>

definition py_strip :: "string \<Rightarrow> string" where
  "py_strip s = rev (dropWhile py_isspace (rev (dropWhile py_isspace s)))"

function py_split :: "string \<Rightarrow> string list" where
  "py_split [] = []"
| "py_split (c # cs) =
     (if py_isspace c then py_split cs
      else takeWhile (\<lambda>d. \<not> py_isspace d) (c # cs)
             # py_split (dropWhile (\<lambda>d. \<not> py_isspace d) cs))"
  by pat_completeness auto
termination
  by (relation "measure length") (auto simp: less_Suc_eq_le length_dropWhile_le)

text \<open>\<open>" ".join(row)\<close>.\<close>

fun join_space :: "string list \<Rightarrow> string" where
  "join_space [] = []"
| "join_space [t] = t"
| "join_space (t # u # ts) = t @ CHR '' '' # join_space (u # ts)"

section \<open>Images and the file system\<close>

text \<open>
  A decoded image: its mode, its size (width, height), the pixel at each coordinate
  (x, y), and the transparent colour that a PNG without alpha channel may declare (its
  tRNS chunk, \<open>img.info["transparency"]\<close>). Only the modes RGB and RGBA are modelled; in
  mode RGB the fourth component of a pixel is not part of the image. \<open>convert_RGBA\<close> is
  \<open>img.convert("RGBA")\<close>: in an image without alpha channel the pixels of the declared
  transparent colour get alpha 0 and all others alpha 255, and the declaration is dropped.
\<close>

datatype mode = RGB | RGBA

record image =
  mode :: mode
  img_size :: "nat \<times> nat"
  pixels :: "nat \<times> nat \<Rightarrow> rgba"
  transparency :: "(int \<times> int \<times> int) option"

definition convert_RGBA :: "image \<Rightarrow> image" where
  "convert_RGBA img =
     (case mode img of
        RGBA \<Rightarrow> img
      | RGB \<Rightarrow>
          img\<lparr>mode := RGBA,
              pixels := (\<lambda>p. (case pixels img p of
                                  (r, g, b, _) \<Rightarrow>
                                    (r, g, b,
                                     if transparency img = Some (r, g, b) then 0 else 255))),
              transparency := None\<rparr>)"

text \<open>\<open>Image.new("RGBA", (width, height))\<close>: every pixel transparent black.\<close>

definition new_RGBA :: "nat \<times> nat \<Rightarrow> image" where
  "new_RGBA sz =
     \<lparr>mode = RGBA, img_size = sz, pixels = (\<lambda>p. (0, 0, 0, 0)), transparency = None\<rparr>"

text \<open>
  \<open>pixels[x, y] = rgba\<close> on an RGBA image: the library clips each channel to the range
  0 to 255 when it stores the pixel.
\<close>

definition clip8 :: "int \<Rightarrow> int" where
  "clip8 n = max 0 (min 255 n)"

definition put_pixel :: "image \<Rightarrow> nat \<times> nat \<Rightarrow> rgba \<Rightarrow> image" where
  "put_pixel img xy rgba =
     (case rgba of
        (r, g, b, a) \<Rightarrow>
          img\<lparr>pixels := (pixels img)(xy := (clip8 r, clip8 g, clip8 b, clip8 a))\<rparr>)"

text \<open>
  A file holds decoded text or a decoded image; a path without entry does not exist.
  Opening a text file as an image, or an image file as text, fails inside the library;
  the program reports that through its general handlers.
\<close>

datatype content = Text string | Png image

type_synonym fs = "string \<rightharpoonup> content"

section \<open>Export: png_to_hex_grid\<close>

text \<open>The row loop of lines 55 to 62: one line per row, codes joined by single spaces.\<close>

definition row_hex_codes :: "image \<Rightarrow> nat \<Rightarrow> nat \<Rightarrow> string list" where
  "row_hex_codes img width y = map (\<lambda>x. rgba_to_hex (pixels img (x, y))) [0..<width]"

definition hex_grid_text :: "image \<Rightarrow> nat \<Rightarrow> nat \<Rightarrow> string" where
  "hex_grid_text img width height =
     concat (map (\<lambda>y. join_space (row_hex_codes img width y) @ [CHR 0x0A]) [0..<height])"

text \<open>
  \<open>png_to_hex_grid\<close> (lines 30 to 69): the reported outcome and the file system after
  the call. \<open>img.size\<close> is a tuple.
\<close>

definition png_to_hex_grid :: "fs \<Rightarrow> string \<Rightarrow> string \<Rightarrow> (error + unit) \<times> fs" where
  "png_to_hex_grid fs input_png_path output_txt_path =
     (case fs input_png_path of
        None \<Rightarrow> (Inl (NotFound input_png_path), fs)
      | Some (Text _) \<Rightarrow> (Inl UnexpectedError, fs)
      | Some (Png img0) \<Rightarrow>
          (let img = convert_RGBA img0;
               width = fst (img_size img);
               height = snd (img_size img)
           in if \<not> py_in (PTuple [PInt (int width), PInt (int height)]) valid_sizes
              then (Inl (WrongDimension (int width) (int height)), fs)
              else (Inr (),
                    fs(output_txt_path \<mapsto> Text (hex_grid_text img width height)))))"

section \<open>Import: hex_grid_to_png\<close>

text \<open>
  The line loop of lines 90 to 104, with its variables \<open>y\<close>, \<open>expected_width\<close> and
  \<open>grid_data\<close> as arguments; it returns \<open>grid_data\<close> and \<open>expected_width\<close>, or the
  ValueError of line 100.
\<close>

fun parse_lines ::
  "nat \<Rightarrow> int \<Rightarrow> string list list \<Rightarrow> string list \<Rightarrow> error + (string list list \<times> int)" where
  "parse_lines y expected_width grid_data [] = Inr (grid_data, expected_width)"
| "parse_lines y expected_width grid_data (line # lines) =
     (if py_strip line = [] then parse_lines (y + 1) expected_width grid_data lines
      else if expected_width = - 1
      then parse_lines (y + 1) (int (length (py_split (py_strip line))))
             (grid_data @ [py_split (py_strip line)]) lines
      else if int (length (py_split (py_strip line))) \<noteq> expected_width
      then Inl (InconsistentRow (y + 1) expected_width (length (py_split (py_strip line))))
      else parse_lines (y + 1) expected_width (grid_data @ [py_split (py_strip line)]) lines)"

text \<open>
  One pixel of the loop of lines 121 to 138: the image and the warnings printed so far
  go in and come out. An index out of range and a token that does not decode both leave
  transparent black and a warning.
\<close>

datatype warning = IndexWarning nat nat | ParseWarning nat nat error

definition set_pixel ::
  "string list list \<Rightarrow> nat \<Rightarrow> nat \<Rightarrow> image \<times> warning list \<Rightarrow> image \<times> warning list" where
  "set_pixel grid_data y x st =
     (case st of (img, ws) \<Rightarrow>
        (if y < length grid_data \<and> x < length (grid_data ! y)
         then (case hex_to_rgba (grid_data ! y ! x) of
                 Inr rgba \<Rightarrow> (put_pixel img (x, y) rgba, ws)
               | Inl ve \<Rightarrow>
                   (put_pixel img (x, y) (0, 0, 0, 0),
                    ws @ [ParseWarning (y + 1) (x + 1) ve]))
         else (put_pixel img (x, y) (0, 0, 0, 0), ws @ [IndexWarning x y])))"

definition fill_pixels ::
  "string list list \<Rightarrow> nat \<Rightarrow> nat \<Rightarrow> image \<times> warning list \<Rightarrow> image \<times> warning list" where
  "fill_pixels grid_data width height st =
     fold (\<lambda>y. fold (\<lambda>x. set_pixel grid_data y x) [0..<width]) [0..<height] st"

text \<open>
  \<open>hex_grid_to_png\<close> (lines 72 to 148): the reported outcome (an error, or the warnings
  of a successful run) and the file system after the call. Line 109 looks the list
  \<open>[width, height]\<close> up in \<open>valid_sizes\<close>. \<open>Image.new\<close> refuses a negative width.
\<close>

definition hex_grid_to_png :: "fs \<Rightarrow> string \<Rightarrow> string \<Rightarrow> (error + warning list) \<times> fs" where
  "hex_grid_to_png fs input_txt_path output_png_path =
     (case fs input_txt_path of
        None \<Rightarrow> (Inl (NotFound input_txt_path), fs)
      | Some (Png _) \<Rightarrow> (Inl UnexpectedError, fs)
      | Some (Text txt) \<Rightarrow>
          (let lines = readlines (universal_newlines txt)
           in if lines = [] then (Inl EmptyInput, fs)
              else (case parse_lines 0 (- 1) [] lines of
                      Inl ve \<Rightarrow> (Inl ve, fs)
                    | Inr (grid_data, expected_width) \<Rightarrow>
                        (let height = length grid_data;
                             width = expected_width
                         in if \<not> py_in (PList [PInt width, PInt (int height)]) valid_sizes
                            then (Inl (WrongDimension width (int height)), fs)
                            else if width < 0 then (Inl UnexpectedError, fs)
                            else (case fill_pixels grid_data (nat width) height
                                         (new_RGBA (nat width, height), []) of
                                    (img, ws) \<Rightarrow>
                                      (Inr ws, fs(output_png_path \<mapsto> Png img)))))))"

section \<open>Properties of the colour codec\<close>

lemma hex_value_not_space: "hex_value c = Some d \<Longrightarrow> \<not> int_isspace c"
  by (auto simp: hex_value_def int_isspace_def Let_def split: if_splits)

lemma hex_value_not_special:
  "hex_value c = Some d \<Longrightarrow>
     c \<noteq> CHR ''+'' \<and> c \<noteq> CHR ''-'' \<and> c \<noteq> CHR ''_'' \<and> c \<noteq> CHR ''x'' \<and> c \<noteq> CHR ''X''"
  by (auto simp: hex_value_def)

lemma py_int16_two_digits:
  assumes "hex_value a = Some x" and "hex_value b = Some y"
  shows "py_int16 [a, b] = Some (int (16 * x + y))"
  using assms hex_value_not_space[OF assms(1)] hex_value_not_special[OF assms(1)]
    hex_value_not_special[OF assms(2)]
  by (simp add: py_int16_def)

lemma nat_below_16:
  assumes "d < (16::nat)"
  shows "d = 0 \<or> d = 1 \<or> d = 2 \<or> d = 3 \<or> d = 4 \<or> d = 5 \<or> d = 6 \<or> d = 7 \<or> d = 8
      \<or> d = 9 \<or> d = 10 \<or> d = 11 \<or> d = 12 \<or> d = 13 \<or> d = 14 \<or> d = 15"
  using assms by arith

lemma hex_value_hex_digit:
  assumes "d < 16"
  shows "hex_value (hex_digit d) = Some d"
  using nat_below_16[OF assms]
  by (elim disjE) (simp_all add: hex_value_def hex_digit_def)

lemma format_02X_byte:
  assumes "0 \<le> n" and "n \<le> 255"
  shows "format_02X n = [hex_digit (nat n div 16), hex_digit (nat n mod 16)]"
proof (cases "nat n < 16")
  case True
  then show ?thesis using assms by (simp add: format_02X_def hex_digit_def)
next
  case False
  moreover have "nat n div 16 < 16" using assms by simp
  ultimately show ?thesis using assms by (simp add: format_02X_def)
qed

lemma py_int16_format_02X:
  assumes "0 \<le> n" and "n \<le> 255"
  shows "py_int16 (format_02X n) = Some n"
proof -
  have "nat n div 16 < 16" "nat n mod 16 < 16" using assms by simp_all
  then have "py_int16 (format_02X n) = Some (int (16 * (nat n div 16) + nat n mod 16))"
    by (simp add: format_02X_byte[OF assms] py_int16_two_digits hex_value_hex_digit)
  then show ?thesis using assms by simp
qed

text \<open>
  C2. Decoding the code of a pixel gives the pixel back: for channels \<open>r\<close>, \<open>g\<close>, \<open>b\<close>,
  \<open>a\<close> between 0 and 255, \<open>hex_to_rgba (rgba_to_hex (r, g, b, a))\<close> succeeds and returns
  \<open>(r, g, b, a)\<close>.
\<close>

theorem hex_to_rgba_rgba_to_hex:
  assumes "0 \<le> r \<and> r \<le> 255" and "0 \<le> g \<and> g \<le> 255"
    and "0 \<le> b \<and> b \<le> 255" and "0 \<le> a \<and> a \<le> 255"
  shows "hex_to_rgba (rgba_to_hex (r, g, b, a)) = Inr (r, g, b, a)"
proof -
  obtain r1 r2 where r: "format_02X r = [r1, r2]" using assms(1) by (simp add: format_02X_byte)
  obtain g1 g2 where g: "format_02X g = [g1, g2]" using assms(2) by (simp add: format_02X_byte)
  obtain b1 b2 where b: "format_02X b = [b1, b2]" using assms(3) by (simp add: format_02X_byte)
  obtain a1 a2 where a: "format_02X a = [a1, a2]" using assms(4) by (simp add: format_02X_byte)
  have "py_int16 [r1, r2] = Some r" "py_int16 [g1, g2] = Some g"
       "py_int16 [b1, b2] = Some b" "py_int16 [a1, a2] = Some a"
    using py_int16_format_02X[of r] py_int16_format_02X[of g]
          py_int16_format_02X[of b] py_int16_format_02X[of a] assms r g b a by simp_all
  then show ?thesis
    by (simp add: hex_to_rgba_def startswith_hash_def py_slice_def r g b a)
qed

theorem hex_to_rgba_rgba_to_hex_witness:
  "(0::int) \<le> 18 \<and> (18::int) \<le> 255 \<and> (0::int) \<le> 0 \<and> (0::int) \<le> 255
   \<and> (0::int) \<le> 171 \<and> (171::int) \<le> 255 \<and> (0::int) \<le> 255 \<and> (255::int) \<le> 255
   \<and> hex_to_rgba (rgba_to_hex (18, 0, 171, 255)) = Inr (18, 0, 171, 255)"
  using hex_to_rgba_rgba_to_hex[of 18 0 171 255] by simp

lemma upper_hex_digit_cases:
  assumes "c \<in> set ''0123456789ABCDEF''"
  shows "\<exists>v<16. hex_value c = Some v \<and> hex_digit v = c"
proof -
  have "c = CHR ''0'' \<or> c = CHR ''1'' \<or> c = CHR ''2'' \<or> c = CHR ''3'' \<or> c = CHR ''4''
      \<or> c = CHR ''5'' \<or> c = CHR ''6'' \<or> c = CHR ''7'' \<or> c = CHR ''8'' \<or> c = CHR ''9''
      \<or> c = CHR ''A'' \<or> c = CHR ''B'' \<or> c = CHR ''C'' \<or> c = CHR ''D'' \<or> c = CHR ''E''
      \<or> c = CHR ''F''"
    using assms by simp
  then show ?thesis
    by (elim disjE) (simp_all add: hex_value_def hex_digit_def)
qed

lemma upper_pair_roundtrip:
  assumes "a \<in> set ''0123456789ABCDEF''" and "b \<in> set ''0123456789ABCDEF''"
  shows "\<exists>n. py_int16 [a, b] = Some n \<and> format_02X n = [a, b]"
proof -
  obtain x where x: "x < 16" "hex_value a = Some x" "hex_digit x = a"
    using upper_hex_digit_cases[OF assms(1)] by blast
  obtain y where y: "y < 16" "hex_value b = Some y" "hex_digit y = b"
    using upper_hex_digit_cases[OF assms(2)] by blast
  have "py_int16 [a, b] = Some (int (16 * x + y))"
    by (rule py_int16_two_digits[OF x(2) y(2)])
  moreover have "format_02X (int (16 * x + y)) = [a, b]"
  proof -
    have "(16 * x + y) div 16 = x" "(16 * x + y) mod 16 = y"
      using y(1) by simp_all
    then have "nat (int (16 * x + y)) div 16 = x" "nat (int (16 * x + y)) mod 16 = y"
      unfolding nat_int by blast+
    moreover have "0 \<le> int (16 * x + y)" "int (16 * x + y) \<le> 255"
      using x(1) y(1) by simp_all
    ultimately show ?thesis
      using format_02X_byte[of "int (16 * x + y)"] x(3) y(3) by metis
  qed
  ultimately show ?thesis by blast
qed

text \<open>
  C3. Encoding the decoded value of a well-formed code gives the code back: for a string
  \<open>code\<close> made of \<open>#\<close> and eight upper-case hexadecimal digits, \<open>hex_to_rgba code\<close>
  succeeds and \<open>rgba_to_hex\<close> of its result is \<open>code\<close>.
\<close>

theorem rgba_to_hex_hex_to_rgba:
  assumes "code = CHR ''#'' # ds" and "length ds = 8"
    and "set ds \<subseteq> set ''0123456789ABCDEF''"
  shows "\<exists>p. hex_to_rgba code = Inr p \<and> rgba_to_hex p = code"
proof -
  obtain d1 d2 d3 d4 d5 d6 d7 d8 where ds: "ds = [d1, d2, d3, d4, d5, d6, d7, d8]"
    using assms(2) by (auto simp: length_Suc_conv numeral_eq_Suc)
  have mem: "d1 \<in> set ''0123456789ABCDEF''" "d2 \<in> set ''0123456789ABCDEF''"
    "d3 \<in> set ''0123456789ABCDEF''" "d4 \<in> set ''0123456789ABCDEF''"
    "d5 \<in> set ''0123456789ABCDEF''" "d6 \<in> set ''0123456789ABCDEF''"
    "d7 \<in> set ''0123456789ABCDEF''" "d8 \<in> set ''0123456789ABCDEF''"
    using assms(3) unfolding ds by auto
  obtain r where r: "py_int16 [d1, d2] = Some r" "format_02X r = [d1, d2]"
    using upper_pair_roundtrip[OF mem(1) mem(2)] by blast
  obtain g where g: "py_int16 [d3, d4] = Some g" "format_02X g = [d3, d4]"
    using upper_pair_roundtrip[OF mem(3) mem(4)] by blast
  obtain b where b: "py_int16 [d5, d6] = Some b" "format_02X b = [d5, d6]"
    using upper_pair_roundtrip[OF mem(5) mem(6)] by blast
  obtain a where a: "py_int16 [d7, d8] = Some a" "format_02X a = [d7, d8]"
    using upper_pair_roundtrip[OF mem(7) mem(8)] by blast
  have "hex_to_rgba code = Inr (r, g, b, a)"
    by (simp add: hex_to_rgba_def startswith_hash_def py_slice_def assms(1) ds r g b a)
  moreover have "rgba_to_hex (r, g, b, a) = code"
    by (simp add: assms(1) ds r g b a)
  ultimately show ?thesis by blast
qed

theorem rgba_to_hex_hex_to_rgba_witness:
  "''#12AB00FF'' = CHR ''#'' # ''12AB00FF'' \<and> length ''12AB00FF'' = 8
   \<and> set ''12AB00FF'' \<subseteq> set ''0123456789ABCDEF''
   \<and> (\<exists>p. hex_to_rgba ''#12AB00FF'' = Inr p \<and> rgba_to_hex p = ''#12AB00FF'')"
  using rgba_to_hex_hex_to_rgba[of "''#12AB00FF''" "''12AB00FF''"] by simp

text \<open>
  C4. \<open>hex_to_rgba\<close> is claimed to fail exactly when the string does not start with
  \<open>#\<close>, is not nine characters long, or has a two-character group that is not valid
  hexadecimal. Python's \<open>int\<close> also reads a sign: the code \<open>#-1-1-1-1\<close>, whose groups
  are not pairs of hexadecimal digits, decodes without error, to channels outside 0 to 255.
\<close>

theorem hex_to_rgba_accepts_signs:
  "hex_to_rgba ''#-1-1-1-1'' = Inr (- 1, - 1, - 1, - 1)"
  by (simp add: hex_to_rgba_def startswith_hash_def py_slice_def py_int16_def
      int_isspace_def hex_value_def)

theorem hex_to_rgba_accepts_signs_witness:
  "startswith_hash ''#-1-1-1-1'' \<and> length ''#-1-1-1-1'' = 9
   \<and> hex_to_rgba ''#-1-1-1-1'' = Inr (- 1, - 1, - 1, - 1)"
  using hex_to_rgba_accepts_signs by (simp add: startswith_hash_def)

section \<open>Properties of the export and the import\<close>

lemma list_not_valid_size: "\<not> py_in (PList xs) valid_sizes"
  by (simp add: py_in_def valid_sizes_def)

lemma tuple_valid_size:
  "py_in (PTuple [PInt (int w), PInt (int h)]) valid_sizes
     \<longleftrightarrow> (w, h) \<in> {(64, 32), (64, 64), (128, 128)}"
  by (auto simp: py_in_def valid_sizes_def)

lemma img_size_convert_RGBA: "img_size (convert_RGBA img) = img_size img"
  by (simp add: convert_RGBA_def split: mode.splits)

lemma readlines_eq_Nil: "readlines s = [] \<longleftrightarrow> s = []"
  by (cases s) (auto split: list.splits)

lemma universal_newlines_eq_Nil: "universal_newlines s = [] \<longleftrightarrow> s = []"
  by (cases s) (auto split: list.splits)

lemma parse_lines_error:
  "parse_lines y ew g ls = Inl e \<Longrightarrow> \<exists>r x n. e = InconsistentRow r x n"
  by (induction y ew g ls rule: parse_lines.induct) (auto split: if_splits)

lemma hex_grid_to_png_fails:
  "\<exists>e. hex_grid_to_png fs inp out = (Inl e, fs)"
  by (auto simp: hex_grid_to_png_def Let_def list_not_valid_size
      split: option.splits content.splits sum.splits)

text \<open>
  C5. Sizes other than 64x32, 64x64 and 128x128 are refused in both directions: an image
  of another size is not exported, and a text grid whose computed width and height are
  another pair is not imported; each call reports the dimension error with the actual
  width and height and leaves the file system as it was.
\<close>

theorem wrong_dimension_rejected:
  "(fs png = Some (Png img) \<and> img_size img = (w, h)
      \<and> (w, h) \<notin> {(64, 32), (64, 64), (128, 128)}
    \<longrightarrow> png_to_hex_grid fs png out = (Inl (WrongDimension (int w) (int h)), fs))
   \<and> (fs txt = Some (Text t) \<and> readlines (universal_newlines t) \<noteq> []
      \<and> parse_lines 0 (- 1) [] (readlines (universal_newlines t)) = Inr (grid_data, width)
      \<and> (width, int (length grid_data)) \<notin> {(64, 32), (64, 64), (128, 128)}
    \<longrightarrow> hex_grid_to_png fs txt out' = (Inl (WrongDimension width (int (length grid_data))), fs))"
proof (intro conjI impI)
  assume a: "fs png = Some (Png img) \<and> img_size img = (w, h)
      \<and> (w, h) \<notin> {(64, 32), (64, 64), (128, 128)}"
  then have "\<not> py_in (PTuple [PInt (int w), PInt (int h)]) valid_sizes"
    unfolding tuple_valid_size by blast
  then show "png_to_hex_grid fs png out = (Inl (WrongDimension (int w) (int h)), fs)"
    using a by (simp add: png_to_hex_grid_def Let_def img_size_convert_RGBA)
next
  assume a: "fs txt = Some (Text t) \<and> readlines (universal_newlines t) \<noteq> []
      \<and> parse_lines 0 (- 1) [] (readlines (universal_newlines t)) = Inr (grid_data, width)
      \<and> (width, int (length grid_data)) \<notin> {(64, 32), (64, 64), (128, 128)}"
  then show "hex_grid_to_png fs txt out' = (Inl (WrongDimension width (int (length grid_data))), fs)"
    by (simp add: hex_grid_to_png_def Let_def list_not_valid_size)
qed

theorem wrong_dimension_rejected_witness:
  "(let img = \<lparr>mode = RGBA, img_size = (10, 10), pixels = (\<lambda>p. (0, 0, 0, 0)),
                 transparency = None\<rparr>;
        fs = [''small.png'' \<mapsto> Png img, ''one.txt'' \<mapsto> Text ''#00000000\<newline>'']
    in fs ''small.png'' = Some (Png img) \<and> img_size img = (10, 10)
       \<and> (10::nat, 10::nat) \<notin> {(64, 32), (64, 64), (128, 128)}
       \<and> png_to_hex_grid fs ''small.png'' ''small.txt'' = (Inl (WrongDimension 10 10), fs)
       \<and> fs ''one.txt'' = Some (Text ''#00000000\<newline>'')
       \<and> readlines (universal_newlines ''#00000000\<newline>'') \<noteq> []
       \<and> parse_lines 0 (- 1) [] (readlines (universal_newlines ''#00000000\<newline>''))
           = Inr ([[''#00000000'']], 1)
       \<and> (1::int, int (length [[''#00000000'']])) \<notin> {(64, 32), (64, 64), (128, 128)}
       \<and> hex_grid_to_png fs ''one.txt'' ''one.png'' = (Inl (WrongDimension 1 1), fs))"
proof -
  define img where "img = \<lparr>mode = RGBA, img_size = (10, 10),
      pixels = (\<lambda>p. (0::int, 0::int, 0::int, 0::int)), transparency = None\<rparr>"
  define fs where "fs = [''small.png'' \<mapsto> Png img, ''one.txt'' \<mapsto> Text ''#00000000\<newline>'']"
  have p: "parse_lines 0 (- 1) [] (readlines (universal_newlines ''#00000000\<newline>''))
           = Inr ([[''#00000000'']], 1)"
    by (simp add: py_strip_def py_isspace_def)
  have 1: "fs ''small.png'' = Some (Png img)" "img_size img = (10, 10)"
    "fs ''one.txt'' = Some (Text ''#00000000\<newline>'')"
    by (simp_all add: fs_def img_def)
  show ?thesis
    unfolding Let_def
    using wrong_dimension_rejected[of fs "''small.png''" img 10 10 "''small.txt''" "''one.txt''"
        "''#00000000\<newline>''" "[[''#00000000'']]" 1 "''one.png''"] p 1
    unfolding fs_def img_def by simp
qed

text \<open>
  C9, as the code has it. A file made of blank lines only has no usable line, and the
  import reports the dimension error for width -1 and height 0, not an empty input.
\<close>

theorem blank_file_counterexample:
  "fst (hex_grid_to_png [''grid.txt'' \<mapsto> Text ''\<newline>\<newline>''] ''grid.txt'' ''skin.png'')
     = Inl (WrongDimension (- 1) 0)
   \<and> fst (hex_grid_to_png [''grid.txt'' \<mapsto> Text ''\<newline>\<newline>''] ''grid.txt'' ''skin.png'')
     \<noteq> Inl EmptyInput"
  by (simp add: hex_grid_to_png_def py_strip_def py_isspace_def list_not_valid_size)

text \<open>
  C9, amended. The import of a path that does not exist reports NotFound; the import of a
  text file reports EmptyInput exactly when the file holds no character at all; in both
  cases the file system is left as it was.
\<close>

theorem import_not_found_empty:
  "(fs missing = None \<longrightarrow> hex_grid_to_png fs missing out = (Inl (NotFound missing), fs))
   \<and> (fs inp = Some (Text txt) \<longrightarrow>
        snd (hex_grid_to_png fs inp out) = fs
        \<and> (fst (hex_grid_to_png fs inp out) = Inl EmptyInput \<longleftrightarrow> txt = []))"
proof (intro conjI impI)
  assume "fs missing = None"
  then show "hex_grid_to_png fs missing out = (Inl (NotFound missing), fs)"
    by (simp add: hex_grid_to_png_def)
next
  assume "fs inp = Some (Text txt)"
  show "snd (hex_grid_to_png fs inp out) = fs"
    using hex_grid_to_png_fails[of fs inp out] by auto
next
  assume t: "fs inp = Some (Text txt)"
  show "fst (hex_grid_to_png fs inp out) = Inl EmptyInput \<longleftrightarrow> txt = []"
  proof (cases "txt = []")
    case True
    then show ?thesis using t by (simp add: hex_grid_to_png_def)
  next
    case False
    then have ne: "readlines (universal_newlines txt) \<noteq> []"
      by (simp add: readlines_eq_Nil universal_newlines_eq_Nil)
    have "fst (hex_grid_to_png fs inp out) \<noteq> Inl EmptyInput"
      using t ne
      by (auto simp: hex_grid_to_png_def Let_def list_not_valid_size
          split: sum.splits dest: parse_lines_error)
    then show ?thesis using False by simp
  qed
qed

theorem import_not_found_empty_witness:
  "[''grid.txt'' \<mapsto> Text []] ''absent.txt'' = None
   \<and> hex_grid_to_png [''grid.txt'' \<mapsto> Text []] ''absent.txt'' ''skin.png''
       = (Inl (NotFound ''absent.txt''), [''grid.txt'' \<mapsto> Text []])
   \<and> [''grid.txt'' \<mapsto> Text []] ''grid.txt'' = Some (Text [])
   \<and> snd (hex_grid_to_png [''grid.txt'' \<mapsto> Text []] ''grid.txt'' ''skin.png'')
       = [''grid.txt'' \<mapsto> Text []]
   \<and> fst (hex_grid_to_png [''grid.txt'' \<mapsto> Text []] ''grid.txt'' ''skin.png'') = Inl EmptyInput"
  using import_not_found_empty[of "[''grid.txt'' \<mapsto> Text []]" "''absent.txt''" "''skin.png''"
      "''grid.txt''" "[]"]
  by simp

lemma parse_lines_blank_prefix:
  "\<forall>l\<in>set pre. py_strip l = [] \<Longrightarrow>
     parse_lines y ew g (pre @ rest) = parse_lines (y + length pre) ew g rest"
  by (induction pre arbitrary: y) simp_all

lemma parse_lines_good_prefix:
  "ew \<noteq> - 1 \<Longrightarrow>
   \<forall>l\<in>set mid. py_strip l = [] \<or> int (length (py_split (py_strip l))) = ew \<Longrightarrow>
     parse_lines y ew g (mid @ rest)
       = parse_lines (y + length mid) ew
           (g @ map (\<lambda>l. py_split (py_strip l)) (filter (\<lambda>l. py_strip l \<noteq> []) mid)) rest"
  by (induction mid arbitrary: y g) auto

text \<open>
  C6, as the code has it. The number in the row-length error is not the number of the
  offending row: behind three blank lines, a first row of two tokens and a second row of
  one token are reported as row 5, the line number of the second row in the file.
\<close>

theorem leading_blank_lines_row_counterexample:
  "readlines (universal_newlines
       ''\<newline>\<newline>\<newline>#00000000 #FFFFFFFF\<newline>#00000000\<newline>'')
     = [''\<newline>'', ''\<newline>'', ''\<newline>'', ''#00000000 #FFFFFFFF\<newline>'', ''#00000000\<newline>'']
   \<and> filter (\<lambda>l. py_strip l \<noteq> [])
         [''\<newline>'', ''\<newline>'', ''\<newline>'', ''#00000000 #FFFFFFFF\<newline>'', ''#00000000\<newline>'']
     = [''#00000000 #FFFFFFFF\<newline>'', ''#00000000\<newline>'']
   \<and> fst (hex_grid_to_png
          [''grid.txt'' \<mapsto>
             Text ''\<newline>\<newline>\<newline>#00000000 #FFFFFFFF\<newline>#00000000\<newline>'']
          ''grid.txt'' ''skin.png'') = Inl (InconsistentRow 5 2 1)"
proof -
  have s: "py_strip ''#00000000 #FFFFFFFF\<newline>'' = ''#00000000 #FFFFFFFF''"
    "py_strip ''#00000000\<newline>'' = ''#00000000''" "py_strip ''\<newline>'' = []"
    by (simp_all add: py_strip_def py_isspace_def)
  have l: "py_split ''#00000000 #FFFFFFFF'' = [''#00000000'', ''#FFFFFFFF'']"
    "py_split ''#00000000'' = [''#00000000'']"
    by (simp_all add: py_isspace_def)
  show ?thesis
    by (simp add: hex_grid_to_png_def s l del: py_split.simps)
qed

text \<open>
  C6, amended. The first non-blank line fixes the expected width, and a later non-blank
  line with another number of tokens makes the import fail: when the lines of the file
  are blank lines \<open>pre\<close>, the first non-blank line, lines \<open>mid\<close> that are blank or have
  as many tokens as the first, and then a non-blank line \<open>bad\<close> with another number of
  tokens, the import reports the row-length error with the line number of \<open>bad\<close> in the
  file, blank lines counted, the expected width and the number of tokens found, and the
  file system is left as it was.
\<close>

theorem inconsistent_row_rejected:
  assumes "fs inp = Some (Text txt)"
    and "readlines (universal_newlines txt) = pre @ first # mid @ bad # post"
    and "\<forall>l\<in>set pre. py_strip l = []"
    and "py_strip first \<noteq> []"
    and "\<forall>l\<in>set mid. py_strip l = []
           \<or> length (py_split (py_strip l)) = length (py_split (py_strip first))"
    and "py_strip bad \<noteq> []"
    and "length (py_split (py_strip bad)) \<noteq> length (py_split (py_strip first))"
  shows "hex_grid_to_png fs inp out
           = (Inl (InconsistentRow (length pre + length mid + 2)
                     (int (length (py_split (py_strip first))))
                     (length (py_split (py_strip bad)))), fs)"
proof -
  let ?n = "int (length (py_split (py_strip first)))"
  have mid: "\<forall>l\<in>set mid. py_strip l = [] \<or> int (length (py_split (py_strip l))) = ?n"
    using assms(5) by auto
  have ne: "?n \<noteq> - 1" by simp
  have "parse_lines 0 (- 1) [] (pre @ first # mid @ bad # post)
          = parse_lines (length pre) (- 1) [] (first # mid @ bad # post)"
    using parse_lines_blank_prefix[OF assms(3)] by simp
  also have "\<dots> = parse_lines (length pre + 1) ?n [py_split (py_strip first)] (mid @ bad # post)"
    using assms(4) by simp
  also have "\<dots> = parse_lines (length pre + 1 + length mid) ?n
        ([py_split (py_strip first)]
           @ map (\<lambda>l. py_split (py_strip l)) (filter (\<lambda>l. py_strip l \<noteq> []) mid)) (bad # post)"
    by (rule parse_lines_good_prefix[OF ne mid])
  also have "\<dots> = Inl (InconsistentRow (length pre + length mid + 2) ?n
                       (length (py_split (py_strip bad))))"
    using assms(6,7) by simp
  finally show ?thesis
    using assms(1,2) by (simp add: hex_grid_to_png_def)
qed

theorem inconsistent_row_rejected_witness:
  "hex_grid_to_png
     [''grid.txt'' \<mapsto> Text ''\<newline>#00000000 #FFFFFFFF\<newline>\<newline>#00000000\<newline>'']
     ''grid.txt'' ''skin.png''
   = (Inl (InconsistentRow 4 2 1),
      [''grid.txt'' \<mapsto> Text ''\<newline>#00000000 #FFFFFFFF\<newline>\<newline>#00000000\<newline>''])"
proof -
  let ?first = "''#00000000 #FFFFFFFF\<newline>''"
  let ?bad = "''#00000000\<newline>''"
  let ?fs = "[''grid.txt'' \<mapsto>
               Text ''\<newline>#00000000 #FFFFFFFF\<newline>\<newline>#00000000\<newline>'']"
  have rl: "readlines (universal_newlines
               ''\<newline>#00000000 #FFFFFFFF\<newline>\<newline>#00000000\<newline>'')
              = [''\<newline>''] @ ?first # [''\<newline>''] @ ?bad # []"
    by simp
  have f: "py_strip ?first = ''#00000000 #FFFFFFFF''" and b: "py_strip ?bad = ''#00000000''"
    and e: "py_strip ''\<newline>'' = []"
    by (simp_all add: py_strip_def py_isspace_def)
  have lf: "length (py_split ''#00000000 #FFFFFFFF'') = 2"
    and lb: "length (py_split ''#00000000'') = 1"
    by (simp_all add: py_isspace_def)
  have p1: "?fs ''grid.txt''
              = Some (Text ''\<newline>#00000000 #FFFFFFFF\<newline>\<newline>#00000000\<newline>'')"
    by simp
  have p3: "\<forall>l\<in>set [''\<newline>'']. py_strip l = []" using e by simp
  have p4: "py_strip ?first \<noteq> []" unfolding f by simp
  have p5: "\<forall>l\<in>set [''\<newline>'']. py_strip l = []
           \<or> length (py_split (py_strip l)) = length (py_split (py_strip ?first))"
    using e by simp
  have p6: "py_strip ?bad \<noteq> []" unfolding b by simp
  have p7: "length (py_split (py_strip ?bad)) \<noteq> length (py_split (py_strip ?first))"
    unfolding f b lf lb by simp
  show ?thesis
    using inconsistent_row_rejected[where fs = ?fs and inp = "''grid.txt''"
        and out = "''skin.png''", OF p1 rl p3 p4 p5 p6 p7]
    unfolding f b lf lb by simp
qed

lemma parse_lines_filter:
  "rel_sum (\<lambda>e e'. \<exists>r r' x n. e = InconsistentRow r x n \<and> e' = InconsistentRow r' x n) (=)
     (parse_lines y ew g ls) (parse_lines y' ew g (filter (\<lambda>l. py_strip l \<noteq> []) ls))"
  by (induction ls arbitrary: y y' ew g) auto

lemma parse_lines_row_is_line:
  "parse_lines y ew g ls = Inl (InconsistentRow r x n) \<Longrightarrow>
     y < r \<and> r \<le> y + length ls \<and> py_strip (ls ! (r - 1 - y)) \<noteq> []
     \<and> length (py_split (py_strip (ls ! (r - 1 - y)))) = n"
proof (induction y ew g ls rule: parse_lines.induct)
  case (1 y ew g)
  then show ?case by simp
next
  case (2 y ew g line lines)
  show ?case
  proof (cases "parse_lines y ew g (line # lines) = Inl (InconsistentRow (y + 1) ew (length (py_split (py_strip line)))) \<and> py_strip line \<noteq> [] \<and> ew \<noteq> - 1 \<and> int (length (py_split (py_strip line))) \<noteq> ew")
    case True
    then show ?thesis using "2.prems" by auto
  next
    case False
    then obtain ew1 g1 where
      rec: "parse_lines (y + 1) ew1 g1 lines = Inl (InconsistentRow r x n)"
      and ih: "parse_lines (y + 1) ew1 g1 lines = Inl (InconsistentRow r x n) \<Longrightarrow>
         y + 1 < r \<and> r \<le> y + 1 + length lines \<and> py_strip (lines ! (r - 1 - (y + 1))) \<noteq> []
         \<and> length (py_split (py_strip (lines ! (r - 1 - (y + 1))))) = n"
      using "2.prems" "2.IH" by (auto split: if_splits)
    from ih[OF rec] have a: "y + 1 < r" "r \<le> y + 1 + length lines"
      "py_strip (lines ! (r - 1 - (y + 1))) \<noteq> []"
      "length (py_split (py_strip (lines ! (r - 1 - (y + 1))))) = n" by auto
    have "r - 1 - y = Suc (r - 1 - (y + 1))" using a(1) by arith
    then have "(line # lines) ! (r - 1 - y) = lines ! (r - 1 - (y + 1))"
      by (simp only: nth_Cons_Suc)
    then show ?thesis using a by auto
  qed
qed

text \<open>
  C8, as the code has it. The row number of the row-length error is the number of the
  line in the file: with a blank line inserted before the offending row, the same grid is
  reported at row 3 instead of row 2.
\<close>

theorem blank_line_row_counterexample:
  "fst (hex_grid_to_png [''grid.txt'' \<mapsto> Text ''#00000000 #FFFFFFFF\<newline>#00000000\<newline>'']
          ''grid.txt'' ''skin.png'') = Inl (InconsistentRow 2 2 1)
   \<and> fst (hex_grid_to_png
          [''grid.txt'' \<mapsto> Text ''#00000000 #FFFFFFFF\<newline>\<newline>#00000000\<newline>'']
          ''grid.txt'' ''skin.png'') = Inl (InconsistentRow 3 2 1)"
proof -
  have s: "py_strip ''#00000000 #FFFFFFFF\<newline>'' = ''#00000000 #FFFFFFFF''"
    "py_strip ''#00000000\<newline>'' = ''#00000000''" "py_strip ''\<newline>'' = []"
    by (simp_all add: py_strip_def py_isspace_def)
  have l: "py_split ''#00000000 #FFFFFFFF'' = [''#00000000'', ''#FFFFFFFF'']"
    "py_split ''#00000000'' = [''#00000000'']"
    by (simp_all add: py_isspace_def)
  show ?thesis
    by (simp add: hex_grid_to_png_def s l del: py_split.simps)
qed

text \<open>
  C8, amended. Blank lines are skipped by the line loop: two lists of lines with the same
  non-blank lines give the same grid and the same width, or fail with the same expected
  and found token counts. The row named by the error is the position of the offending
  line among all lines of the file, blank ones included.
\<close>

theorem blank_lines_skipped:
  assumes "filter (\<lambda>l. py_strip l \<noteq> []) ls' = filter (\<lambda>l. py_strip l \<noteq> []) ls"
  shows "(parse_lines 0 (- 1) [] ls' = Inr (g, w) \<longleftrightarrow> parse_lines 0 (- 1) [] ls = Inr (g, w))
    \<and> ((\<exists>r. parse_lines 0 (- 1) [] ls' = Inl (InconsistentRow r x n))
         \<longleftrightarrow> (\<exists>r. parse_lines 0 (- 1) [] ls = Inl (InconsistentRow r x n)))
    \<and> (parse_lines 0 (- 1) [] ls = Inl (InconsistentRow r x n) \<longrightarrow>
          0 < r \<and> r \<le> length ls \<and> py_strip (ls ! (r - 1)) \<noteq> []
          \<and> length (py_split (py_strip (ls ! (r - 1)))) = n)"
proof -
  let ?R = "rel_sum (\<lambda>e e'. \<exists>r r' x n. e = InconsistentRow r x n \<and> e' = InconsistentRow r' x n) (=)"
  let ?f = "parse_lines 0 (- 1) [] (filter (\<lambda>l. py_strip l \<noteq> []) ls)"
  have 1: "?R (parse_lines 0 (- 1) [] ls) ?f" by (rule parse_lines_filter)
  have 2: "?R (parse_lines 0 (- 1) [] ls') ?f"
    using parse_lines_filter[of 0 "- 1" "[]" ls' 0] assms by simp
  have a: "parse_lines 0 (- 1) [] ls' = Inr (g, w) \<longleftrightarrow> parse_lines 0 (- 1) [] ls = Inr (g, w)"
    using 1 2 by (cases "parse_lines 0 (- 1) [] ls"; cases "parse_lines 0 (- 1) [] ls'"; cases ?f) auto
  have b: "(\<exists>r. parse_lines 0 (- 1) [] ls' = Inl (InconsistentRow r x n))
         \<longleftrightarrow> (\<exists>r. parse_lines 0 (- 1) [] ls = Inl (InconsistentRow r x n))"
    using 1 2 by (cases "parse_lines 0 (- 1) [] ls"; cases "parse_lines 0 (- 1) [] ls'"; cases ?f) auto
  have c: "parse_lines 0 (- 1) [] ls = Inl (InconsistentRow r x n) \<longrightarrow>
          0 < r \<and> r \<le> length ls \<and> py_strip (ls ! (r - 1)) \<noteq> []
          \<and> length (py_split (py_strip (ls ! (r - 1)))) = n"
    using parse_lines_row_is_line[of 0 "- 1" "[]" ls r x n] by auto
  show ?thesis using a b c by blast
qed

theorem blank_lines_skipped_witness:
  "filter (\<lambda>l. py_strip l \<noteq> []) [''#00000000 #FFFFFFFF\<newline>'', ''\<newline>'', ''#FFFFFFFF #00000000\<newline>'']
     = filter (\<lambda>l. py_strip l \<noteq> []) [''#00000000 #FFFFFFFF\<newline>'', ''#FFFFFFFF #00000000\<newline>'']
   \<and> parse_lines 0 (- 1) [] [''#00000000 #FFFFFFFF\<newline>'', ''\<newline>'', ''#FFFFFFFF #00000000\<newline>'']
     = Inr ([[''#00000000'', ''#FFFFFFFF''], [''#FFFFFFFF'', ''#00000000'']], 2)"
proof -
  have s: "py_strip ''#00000000 #FFFFFFFF\<newline>'' = ''#00000000 #FFFFFFFF''"
    "py_strip ''#FFFFFFFF #00000000\<newline>'' = ''#FFFFFFFF #00000000''" "py_strip ''\<newline>'' = []"
    by (simp_all add: py_strip_def py_isspace_def)
  have l: "py_split ''#00000000 #FFFFFFFF'' = [''#00000000'', ''#FFFFFFFF'']"
    "py_split ''#FFFFFFFF #00000000'' = [''#FFFFFFFF'', ''#00000000'']"
    by (simp_all add: py_isspace_def)
  have f: "filter (\<lambda>l. py_strip l \<noteq> []) [''#00000000 #FFFFFFFF\<newline>'', ''\<newline>'', ''#FFFFFFFF #00000000\<newline>'']
     = filter (\<lambda>l. py_strip l \<noteq> []) [''#00000000 #FFFFFFFF\<newline>'', ''#FFFFFFFF #00000000\<newline>'']"
    by (simp add: s)
  have p: "parse_lines 0 (- 1) [] [''#00000000 #FFFFFFFF\<newline>'', ''#FFFFFFFF #00000000\<newline>'']
     = Inr ([[''#00000000'', ''#FFFFFFFF''], [''#FFFFFFFF'', ''#00000000'']], 2)"
    by (simp add: s l del: py_split.simps)
  show ?thesis
    using blank_lines_skipped[OF f, of "[[''#00000000'', ''#FFFFFFFF''], [''#FFFFFFFF'', ''#00000000'']]" 2] p f
    by blast
qed

section \<open>The text of a grid, read back\<close>

lemma universal_newlines_id: "CHR 0x0D \<notin> set s \<Longrightarrow> universal_newlines s = s"
  by (induction s) auto

lemma readlines_line:
  "CHR 0x0A \<notin> set r \<Longrightarrow> readlines (r @ CHR 0x0A # rest) = (r @ [CHR 0x0A]) # readlines rest"
  by (induction r) auto

lemma readlines_rows:
  "\<forall>r\<in>set rows. CHR 0x0A \<notin> set r \<Longrightarrow>
     readlines (concat (map (\<lambda>r. r @ [CHR 0x0A]) rows)) = map (\<lambda>r. r @ [CHR 0x0A]) rows"
  by (induction rows) (simp_all add: readlines_line)

lemma py_isspace_simps [simp]:
  "py_isspace (CHR 0x0A)" "py_isspace (CHR 0x0D)" "py_isspace (CHR '' '')"
  by (simp_all add: py_isspace_def)

lemma py_split_token:
  assumes "t \<noteq> []" and "\<forall>c\<in>set t. \<not> py_isspace c" and "s = [] \<or> py_isspace (hd s)"
  shows "py_split (t @ s) = t # py_split s"
proof -
  obtain c cs where t: "t = c # cs" using assms(1) by (cases t) auto
  have tw: "takeWhile (\<lambda>d. \<not> py_isspace d) (t @ s) = t"
    using assms(2,3) by (cases s) auto
  have dw: "dropWhile (\<lambda>d. \<not> py_isspace d) (cs @ s) = s"
    using assms(2,3) unfolding t by (cases s) auto
  have "py_split (t @ s) = takeWhile (\<lambda>d. \<not> py_isspace d) (t @ s)
          # py_split (dropWhile (\<lambda>d. \<not> py_isspace d) (cs @ s))"
    using assms(2) unfolding t by simp
  then show ?thesis unfolding tw dw .
qed

lemma py_split_join_space:
  "\<forall>t\<in>set toks. t \<noteq> [] \<and> (\<forall>c\<in>set t. \<not> py_isspace c) \<Longrightarrow> py_split (join_space toks) = toks"
proof (induction toks rule: join_space.induct)
  case 1
  then show ?case by simp
next
  case (2 t)
  then show ?case using py_split_token[of t "[]"] by simp
next
  case (3 t u ts)
  have "py_split (t @ CHR '' '' # join_space (u # ts)) = t # py_split (CHR '' '' # join_space (u # ts))"
    using 3(2) by (intro py_split_token) auto
  then show ?case using 3 by simp
qed

lemma join_space_ends:
  "toks \<noteq> [] \<Longrightarrow> \<forall>t\<in>set toks. t \<noteq> [] \<and> (\<forall>c\<in>set t. \<not> py_isspace c) \<Longrightarrow>
     join_space toks \<noteq> [] \<and> \<not> py_isspace (hd (join_space toks))
     \<and> \<not> py_isspace (last (join_space toks))"
proof (induction toks rule: join_space.induct)
  case 1
  then show ?case by simp
next
  case (2 t)
  then show ?case by (cases t) auto
next
  case (3 t u ts)
  then show ?case by (cases t) auto
qed

lemma set_join_space:
  "set (join_space toks) \<subseteq> (\<Union>t\<in>set toks. set t) \<union> {CHR '' ''}"
  by (induction toks rule: join_space.induct) auto

lemma py_strip_line:
  assumes "toks \<noteq> []" and "\<forall>t\<in>set toks. t \<noteq> [] \<and> (\<forall>c\<in>set t. \<not> py_isspace c)"
  shows "py_strip (join_space toks @ [CHR 0x0A]) = join_space toks"
proof -
  let ?j = "join_space toks"
  have e: "?j \<noteq> []" "\<not> py_isspace (hd ?j)" "\<not> py_isspace (last ?j)"
    using join_space_ends[OF assms] by auto
  have 1: "dropWhile py_isspace (?j @ [CHR 0x0A]) = ?j @ [CHR 0x0A]"
    using e(1,2) by (cases ?j) auto
  have 2: "dropWhile py_isspace (rev ?j) = rev ?j"
    using e(1,3) by (cases "rev ?j") (auto simp: hd_rev)
  show ?thesis by (simp add: py_strip_def 1 2)
qed

lemma grid_line_tokens:
  assumes "r \<noteq> []" and "\<forall>t\<in>set r. t \<noteq> [] \<and> (\<forall>c\<in>set t. \<not> py_isspace c)"
  shows "py_strip (join_space r @ [CHR 0x0A]) \<noteq> []"
    and "py_split (py_strip (join_space r @ [CHR 0x0A])) = r"
  using assms join_space_ends[OF assms] by (simp_all add: py_strip_line py_split_join_space)

lemma parse_lines_grid:
  assumes "\<forall>r\<in>set rows. length r = n" and "0 < n"
    and "\<forall>r\<in>set rows. \<forall>t\<in>set r. t \<noteq> [] \<and> (\<forall>c\<in>set t. \<not> py_isspace c)"
  shows "parse_lines y (int n) g (map (\<lambda>r. join_space r @ [CHR 0x0A]) rows)
           = Inr (g @ rows, int n)"
  using assms(1,3)
proof (induction rows arbitrary: y g)
  case Nil
  then show ?case by simp
next
  case (Cons r rows)
  have r: "r \<noteq> []" "\<forall>t\<in>set r. t \<noteq> [] \<and> (\<forall>c\<in>set t. \<not> py_isspace c)" "length r = n"
    using Cons.prems assms(2) by auto
  have "parse_lines y (int n) g (map (\<lambda>r. join_space r @ [CHR 0x0A]) (r # rows))
          = parse_lines (y + 1) (int n) (g @ [r]) (map (\<lambda>r. join_space r @ [CHR 0x0A]) rows)"
    using grid_line_tokens[OF r(1,2)] r(3) by simp
  also have "\<dots> = Inr ((g @ [r]) @ rows, int n)"
    using Cons.prems by (intro Cons.IH) auto
  finally show ?case by simp
qed

lemma import_grid_fails:
  assumes "fs inp = Some (Text (concat (map (\<lambda>r. join_space r @ [CHR 0x0A]) rows)))"
    and "rows \<noteq> []" and "\<forall>r\<in>set rows. length r = n" and "0 < n"
    and "\<forall>r\<in>set rows. \<forall>t\<in>set r. t \<noteq> [] \<and> (\<forall>c\<in>set t. \<not> py_isspace c)"
  shows "hex_grid_to_png fs inp out = (Inl (WrongDimension (int n) (int (length rows))), fs)"
proof -
  let ?txt = "concat (map (\<lambda>r. join_space r @ [CHR 0x0A]) rows)"
  have nosp: "\<forall>r\<in>set rows. \<forall>c\<in>set (join_space r). c \<noteq> CHR 0x0A \<and> c \<noteq> CHR 0x0D"
  proof (intro ballI)
    fix r c assume r: "r \<in> set rows" and c: "c \<in> set (join_space r)"
    then have "c = CHR '' '' \<or> (\<exists>t\<in>set r. c \<in> set t)" using set_join_space[of r] by auto
    then show "c \<noteq> CHR 0x0A \<and> c \<noteq> CHR 0x0D"
    proof
      assume "c = CHR '' ''"
      then show ?thesis by simp
    next
      assume "\<exists>t\<in>set r. c \<in> set t"
      then have "\<not> py_isspace c" using assms(5) r by blast
      then show ?thesis using py_isspace_simps(1,2) by blast
    qed
  qed
  have cr: "CHR 0x0D \<notin> set ?txt" using nosp by auto
  have "concat (map (\<lambda>r. join_space r @ [CHR 0x0A]) rows)
          = concat (map (\<lambda>l. l @ [CHR 0x0A]) (map join_space rows))"
    by (simp add: comp_def)
  moreover have "readlines (concat (map (\<lambda>l. l @ [CHR 0x0A]) (map join_space rows)))
          = map (\<lambda>l. l @ [CHR 0x0A]) (map join_space rows)"
    using nosp by (intro readlines_rows) auto
  ultimately have rl: "readlines (universal_newlines ?txt) = map (\<lambda>r. join_space r @ [CHR 0x0A]) rows"
    by (simp add: universal_newlines_id[OF cr] comp_def)
  obtain r0 rs where rows: "rows = r0 # rs" using assms(2) by (cases rows) auto
  have r0: "r0 \<noteq> []" "\<forall>t\<in>set r0. t \<noteq> [] \<and> (\<forall>c\<in>set t. \<not> py_isspace c)" "length r0 = n"
    using assms(3,4,5) rows by auto
  have "parse_lines 0 (- 1) [] (map (\<lambda>r. join_space r @ [CHR 0x0A]) rows)
          = parse_lines 1 (int n) [r0] (map (\<lambda>r. join_space r @ [CHR 0x0A]) rs)"
    unfolding rows using grid_line_tokens[OF r0(1,2)] r0(3) by simp
  also have "\<dots> = Inr ([r0] @ rs, int n)"
    using assms(3,4,5) rows by (intro parse_lines_grid) auto
  finally have p: "parse_lines 0 (- 1) [] (map (\<lambda>r. join_space r @ [CHR 0x0A]) rows) = Inr (rows, int n)"
    using rows by simp
  show ?thesis
    using assms(1,2) by (simp add: hex_grid_to_png_def rl p list_not_valid_size)
qed

lemma upper_digit_not_space: "c \<in> set ''0123456789ABCDEF'' \<Longrightarrow> \<not> py_isspace c"
  by (auto simp: py_isspace_def)

lemma hex_digit_upper: "d < 16 \<Longrightarrow> hex_digit d \<in> set ''0123456789ABCDEF''"
  unfolding hex_digit_def by (rule nth_mem) simp

lemma upper_hex_no_space: "c \<in> set (upper_hex n) \<Longrightarrow> \<not> py_isspace c"
proof (induction n rule: upper_hex.induct)
  case (1 n)
  show ?case
  proof (cases "n < 16")
    case True
    then have "upper_hex n = [hex_digit n]" by (subst upper_hex.simps) simp
    then have "set (upper_hex n) = {hex_digit n}" by (simp only: list.set)
    then have "c = hex_digit n" using "1.prems" by blast
    then show ?thesis
      using upper_digit_not_space[OF hex_digit_upper[OF True]] by blast
  next
    case False
    then have "upper_hex n = upper_hex (n div 16) @ [hex_digit (n mod 16)]"
      by (subst upper_hex.simps) (simp del: upper_hex.simps)
    then have "set (upper_hex n) = set (upper_hex (n div 16)) \<union> {hex_digit (n mod 16)}"
      by (simp only: set_append list.set Un_empty_right)
    then have "c \<in> set (upper_hex (n div 16)) \<or> c = hex_digit (n mod 16)"
      using "1.prems" by blast
    moreover have "\<not> py_isspace (hex_digit (n mod 16))"
      by (rule upper_digit_not_space[OF hex_digit_upper]) simp
    ultimately show ?thesis
      using "1.IH"[OF False] by blast
  qed
qed

lemma format_02X_no_space: "c \<in> set (format_02X n) \<Longrightarrow> \<not> py_isspace c"
proof -
  have "\<not> py_isspace (CHR ''-'')" "\<not> py_isspace (CHR ''0'')"
    by (simp_all add: py_isspace_def)
  then show "c \<in> set (format_02X n) \<Longrightarrow> \<not> py_isspace c"
    using upper_hex_no_space by (auto simp: format_02X_def simp del: upper_hex.simps split: if_splits)
qed

lemma rgba_to_hex_token:
  "rgba_to_hex p \<noteq> [] \<and> (\<forall>c\<in>set (rgba_to_hex p). \<not> py_isspace c)"
proof -
  obtain r g b a where p: "p = (r, g, b, a)" by (cases p) auto
  have "\<not> py_isspace (CHR ''#'')" by (simp add: py_isspace_def)
  then show ?thesis unfolding p using format_02X_no_space by auto
qed

lemma valid_size_positive:
  "(w, h) \<in> {(64, 32), (64, 64), (128, 128)} \<Longrightarrow> 0 < (w::nat) \<and> 0 < (h::nat)"
  by auto


section \<open>Import after export, and import of well-formed grids\<close>

text \<open>
  C1. Export followed by import is claimed to give the pixel grid back. The import never
  gets that far: line 109 looks the list \<open>[width, height]\<close> up in a list of tuples,
  which never contains it. For every image of a valid size the export writes the grid,
  and the import of that grid reports the dimension error and writes no image.
\<close>

theorem export_then_import_fails:
  assumes "fs inp = Some (Png img)" and "img_size img = (w, h)"
    and "(w, h) \<in> {(64, 32), (64, 64), (128, 128)}"
  shows "png_to_hex_grid fs inp tmp
           = (Inr (), fs(tmp \<mapsto> Text (hex_grid_text (convert_RGBA img) w h)))
    \<and> hex_grid_to_png (fs(tmp \<mapsto> Text (hex_grid_text (convert_RGBA img) w h))) tmp out
           = (Inl (WrongDimension (int w) (int h)),
              fs(tmp \<mapsto> Text (hex_grid_text (convert_RGBA img) w h)))"
proof
  have "py_in (PTuple [PInt (int w), PInt (int h)]) valid_sizes"
    using assms(3) by (auto simp: py_in_def valid_sizes_def)
  then show "png_to_hex_grid fs inp tmp
           = (Inr (), fs(tmp \<mapsto> Text (hex_grid_text (convert_RGBA img) w h)))"
    using assms(1,2) by (simp add: png_to_hex_grid_def Let_def convert_RGBA_def split: mode.splits)
next
  let ?img = "convert_RGBA img"
  let ?rows = "map (row_hex_codes ?img w) [0..<h]"
  let ?fs = "fs(tmp \<mapsto> Text (hex_grid_text ?img w h))"
  have pos: "0 < w" "0 < h" using valid_size_positive[OF assms(3)] by auto
  have t: "hex_grid_text ?img w h = concat (map (\<lambda>r. join_space r @ [CHR 0x0A]) ?rows)"
    by (simp add: hex_grid_text_def comp_def)
  have 1: "?fs tmp = Some (Text (concat (map (\<lambda>r. join_space r @ [CHR 0x0A]) ?rows)))"
    using t by simp
  have 2: "?rows \<noteq> []" using pos by simp
  have 3: "\<forall>r\<in>set ?rows. length r = w" by (auto simp: row_hex_codes_def)
  have 4: "\<forall>r\<in>set ?rows. \<forall>t\<in>set r. t \<noteq> [] \<and> (\<forall>c\<in>set t. \<not> py_isspace c)"
    using rgba_to_hex_token by (auto simp: row_hex_codes_def simp del: rgba_to_hex.simps)
  show "hex_grid_to_png ?fs tmp out = (Inl (WrongDimension (int w) (int h)), ?fs)"
    using import_grid_fails[where fs = ?fs and inp = tmp and out = out, OF 1 2 3 pos(1) 4]
    by simp
qed

theorem export_then_import_fails_witness:
  "fst (png_to_hex_grid
          [''skin.png'' \<mapsto> Png \<lparr>mode = RGB, img_size = (64, 32), pixels = (\<lambda>p. (255, 0, 0, 0)),
                               transparency = None\<rparr>]
          ''skin.png'' ''skin.tmp'') = Inr ()
   \<and> fst (hex_grid_to_png
            (snd (png_to_hex_grid
               [''skin.png'' \<mapsto> Png \<lparr>mode = RGB, img_size = (64, 32), pixels = (\<lambda>p. (255, 0, 0, 0)),
                               transparency = None\<rparr>]
               ''skin.png'' ''skin.tmp''))
            ''skin.tmp'' ''copy.png'') = Inl (WrongDimension 64 32)"
proof -
  let ?img = "\<lparr>mode = RGB, img_size = (64, 32),
      pixels = (\<lambda>p. (255::int, 0::int, 0::int, 0::int)), transparency = None\<rparr>"
  let ?fs = "[''skin.png'' \<mapsto> Png ?img]"
  have 1: "?fs ''skin.png'' = Some (Png ?img)" by simp
  have 2: "img_size ?img = (64, 32)" by simp
  have 3: "(64::nat, 32::nat) \<in> {(64, 32), (64, 64), (128, 128)}" by simp
  show ?thesis
    using export_then_import_fails[where fs = ?fs and inp = "''skin.png''"
        and tmp = "''skin.tmp''" and out = "''copy.png''", OF 1 2 3]
    by simp
qed

text \<open>
  C7. An import whose grid holds a token that does not decode is claimed to succeed with
  transparent black at that position. For every rectangular grid of a valid size with
  such a token, the import reports the dimension error instead and writes no image: the
  pixel loop with its substitution is never reached.
\<close>

theorem malformed_token_import_fails:
  assumes "fs inp = Some (Text (concat (map (\<lambda>r. join_space r @ [CHR 0x0A]) rows)))"
    and "(n, length rows) \<in> {(64, 32), (64, 64), (128, 128)}"
    and "\<forall>r\<in>set rows. length r = n"
    and "\<forall>r\<in>set rows. \<forall>t\<in>set r. t \<noteq> [] \<and> (\<forall>c\<in>set t. \<not> py_isspace c)"
    and "y < length rows" and "x < n" and "hex_to_rgba (rows ! y ! x) = Inl e"
  shows "hex_grid_to_png fs inp out = (Inl (WrongDimension (int n) (int (length rows))), fs)"
proof -
  have pos: "0 < n" "0 < length rows" using valid_size_positive[OF assms(2)] by auto
  then have "rows \<noteq> []" by auto
  then show ?thesis
    using import_grid_fails[where fs = fs and inp = inp and out = out,
        OF assms(1) _ assms(3) pos(1) assms(4)]
    by simp
qed

theorem malformed_token_import_fails_witness:
  "(let rows = (''#ZZZZZZZZ'' # replicate 63 ''#00000000'') # replicate 31 (replicate 64 ''#00000000'');
        fs = [''grid.txt'' \<mapsto> Text (concat (map (\<lambda>r. join_space r @ [CHR 0x0A]) rows))]
    in (64::nat, length rows) \<in> {(64, 32), (64, 64), (128, 128)}
       \<and> hex_to_rgba (rows ! 0 ! 0) = Inl (InvalidChars ''#ZZZZZZZZ'')
       \<and> hex_grid_to_png fs ''grid.txt'' ''skin.png'' = (Inl (WrongDimension 64 32), fs))"
proof -
  let ?rows = "(''#ZZZZZZZZ'' # replicate 63 ''#00000000'') # replicate 31 (replicate 64 ''#00000000'')"
  let ?fs = "[''grid.txt'' \<mapsto> Text (concat (map (\<lambda>r. join_space r @ [CHR 0x0A]) ?rows))]"
  have 1: "?fs ''grid.txt'' = Some (Text (concat (map (\<lambda>r. join_space r @ [CHR 0x0A]) ?rows)))"
    by (rule fun_upd_same)
  have len: "length ?rows = 32" by simp
  have 2: "(64, length ?rows) \<in> {(64::nat, 32::nat), (64, 64), (128, 128)}"
    unfolding len by simp
  have 3: "\<forall>r\<in>set ?rows. length r = 64" by simp
  have 4: "\<forall>r\<in>set ?rows. \<forall>t\<in>set r. t \<noteq> [] \<and> (\<forall>c\<in>set t. \<not> py_isspace c)"
    by (auto simp: py_isspace_def)
  have 5: "0 < length ?rows" "(0::nat) < 64" by simp_all
  have 7: "hex_to_rgba (?rows ! 0 ! 0) = Inl (InvalidChars ''#ZZZZZZZZ'')"
    by (simp add: hex_to_rgba_def startswith_hash_def py_slice_def py_int16_def
        int_isspace_def hex_value_def)
  have main: "hex_grid_to_png ?fs ''grid.txt'' ''skin.png''
               = (Inl (WrongDimension (int 64) (int (length ?rows))), ?fs)"
    by (rule malformed_token_import_fails[where fs = ?fs and inp = "''grid.txt''"
          and out = "''skin.png''" and y = 0 and x = 0, OF 1 2 3 4 5 7])
  have "hex_grid_to_png ?fs ''grid.txt'' ''skin.png'' = (Inl (WrongDimension 64 32), ?fs)"
    using main unfolding len by simp
  then show ?thesis unfolding Let_def using 2 7 by blast
qed

text \<open>
  C10. Import followed by export is claimed to give the text lines back. For every
  rectangular grid of well-formed upper-case codes of a valid size, the import reports
  the dimension error and writes no image, so the export that follows finds no image to
  read.
\<close>

theorem wellformed_grid_import_fails:
  assumes "fs inp = Some (Text (concat (map (\<lambda>r. join_space r @ [CHR 0x0A]) rows)))"
    and "fs png = None"
    and "(n, length rows) \<in> {(64, 32), (64, 64), (128, 128)}"
    and "\<forall>r\<in>set rows. length r = n"
    and "\<forall>r\<in>set rows. \<forall>t\<in>set r.
           \<exists>ds. t = CHR ''#'' # ds \<and> length ds = 8 \<and> set ds \<subseteq> set ''0123456789ABCDEF''"
  shows "hex_grid_to_png fs inp png = (Inl (WrongDimension (int n) (int (length rows))), fs)
    \<and> png_to_hex_grid (snd (hex_grid_to_png fs inp png)) png copy_path = (Inl (NotFound png), fs)"
proof -
  have pos: "0 < n" "0 < length rows" using valid_size_positive[OF assms(3)] by auto
  then have ne: "rows \<noteq> []" by auto
  have tok: "\<forall>r\<in>set rows. \<forall>t\<in>set r. t \<noteq> [] \<and> (\<forall>c\<in>set t. \<not> py_isspace c)"
  proof (intro ballI)
    fix r t assume "r \<in> set rows" "t \<in> set r"
    then obtain ds where ds: "t = CHR ''#'' # ds" "set ds \<subseteq> set ''0123456789ABCDEF''"
      using assms(5) by blast
    have "\<not> py_isspace (CHR ''#'')" by (simp add: py_isspace_def)
    then show "t \<noteq> [] \<and> (\<forall>c\<in>set t. \<not> py_isspace c)"
      using ds upper_digit_not_space by auto
  qed
  have 1: "hex_grid_to_png fs inp png = (Inl (WrongDimension (int n) (int (length rows))), fs)"
    by (rule import_grid_fails[where fs = fs and inp = inp, OF assms(1) ne assms(4) pos(1) tok])
  then show ?thesis using assms(2) by (simp add: png_to_hex_grid_def)
qed

theorem wellformed_grid_import_fails_witness:
  "(let rows = replicate 64 (replicate 64 ''#12ABCDEF'');
        fs = [''grid.txt'' \<mapsto> Text (concat (map (\<lambda>r. join_space r @ [CHR 0x0A]) rows))]
    in fs ''skin.png'' = None
       \<and> (64::nat, length rows) \<in> {(64, 32), (64, 64), (128, 128)}
       \<and> hex_grid_to_png fs ''grid.txt'' ''skin.png'' = (Inl (WrongDimension 64 64), fs)
       \<and> png_to_hex_grid (snd (hex_grid_to_png fs ''grid.txt'' ''skin.png'')) ''skin.png'' ''copy.txt''
           = (Inl (NotFound ''skin.png''), fs))"
proof -
  let ?rows = "replicate 64 (replicate 64 ''#12ABCDEF'')"
  let ?fs = "[''grid.txt'' \<mapsto> Text (concat (map (\<lambda>r. join_space r @ [CHR 0x0A]) ?rows))]"
  have 1: "?fs ''grid.txt'' = Some (Text (concat (map (\<lambda>r. join_space r @ [CHR 0x0A]) ?rows)))"
    by (rule fun_upd_same)
  have 0: "?fs ''skin.png'' = None" by simp
  have len: "length ?rows = 64" by simp
  have 2: "(64, length ?rows) \<in> {(64::nat, 32::nat), (64, 64), (128, 128)}"
    unfolding len by simp
  have 3: "\<forall>r\<in>set ?rows. length r = 64" by simp
  have 4: "\<forall>r\<in>set ?rows. \<forall>t\<in>set r.
           \<exists>ds. t = CHR ''#'' # ds \<and> length ds = 8 \<and> set ds \<subseteq> set ''0123456789ABCDEF''"
    by simp
  have main: "hex_grid_to_png ?fs ''grid.txt'' ''skin.png''
               = (Inl (WrongDimension (int 64) (int (length ?rows))), ?fs)
    \<and> png_to_hex_grid (snd (hex_grid_to_png ?fs ''grid.txt'' ''skin.png'')) ''skin.png'' ''copy.txt''
               = (Inl (NotFound ''skin.png''), ?fs)"
    by (rule wellformed_grid_import_fails[where fs = ?fs and inp = "''grid.txt''"
          and png = "''skin.png''" and copy_path = "''copy.txt''", OF 1 0 2 3 4])
  have "hex_grid_to_png ?fs ''grid.txt'' ''skin.png'' = (Inl (WrongDimension 64 64), ?fs)"
    using main unfolding len by simp
  then show ?thesis unfolding Let_def using 0 2 main by blast
qed

end
